theory Spec2Isabelle
  imports Complex_Main "HOL-Library.Log_Nat"
begin

section \<open>Data model of the presale store (lib/presale-db.ts)\<close>

text \<open>
  The store keeps two arrays, \<open>presales\<close> and \<open>participants\<close>, and a counter.
  JavaScript numbers that hold SOL amounts are modelled as exact rationals (\<open>rat\<close>):
  the store is modelled as bookkeeping, without the rounding of IEEE-754 doubles.
  The last section models that rounding, for the arithmetic of the withdrawal tax.  Counts, basis points
  and lamports are integers; a timestamp (an ISO string in the source, compared
  through \<open>new Date(...)\<close>) is the number of milliseconds since the epoch.  An
  optional field is an \<open>option\<close>.  The field \<open>id\<close> of both interfaces is suffixed,
  since \<open>id\<close> is the identity function of HOL.
\<close>

datatype PresaleStatus = Active | Launched | Failed | Refunding

record Presale =
  id_presale :: string
  creator_wallet :: string
  token_name :: string
  token_symbol :: string
  description :: string
  image_url :: string
  twitter :: "string option"
  website :: "string option"
  min_sol_per_wallet :: rat
  max_sol_per_wallet :: rat
  target_participants :: int
  duration_minutes :: int
  launch_fee_paid :: bool
  launch_fee_signature :: "string option"
  status :: PresaleStatus
  created_at :: int
  expires_at :: int
  launched_at :: "int option"
  token_mint :: "string option"
  launch_signature :: "string option"
  meteora_config_key :: "string option"
  total_sol :: rat
  participant_count :: int

record PresaleParticipant =
  id_participant :: string
  presale_id :: string
  wallet :: string
  amount_sol :: rat
  fee_share_bps :: int
  joined_at :: int
  tx_signature :: string
  confirmed :: bool
  refunded :: bool
  refund_signature :: "string option"
  withdrawn :: bool
  withdraw_signature :: "string option"
  withdraw_tax_paid :: "rat option"

record PresaleDatabase =
  presales :: "Presale list"
  participants :: "PresaleParticipant list"
  lastPresaleNum :: nat

text \<open>
  \<open>arr.find(P)\<close> followed by assignments to the object found mutates the first
  element of the array that satisfies \<open>P\<close>, in place.
\<close>

fun update_first :: "('a \<Rightarrow> bool) \<Rightarrow> ('a \<Rightarrow> 'a) \<Rightarrow> 'a list \<Rightarrow> 'a list" where
  "update_first P f [] = []"
| "update_first P f (x # xs) = (if P x then f x # xs else x # update_first P f xs)"

subsection \<open>Configuration (lib/constants.ts)\<close>

definition CREATOR_ALLOCATION_BPS :: int where "CREATOR_ALLOCATION_BPS = 500"
definition PARTICIPANT_ALLOCATION_BPS :: int where "PARTICIPANT_ALLOCATION_BPS = 9500"
definition WITHDRAWAL_TAX_BPS :: int where "WITHDRAWAL_TAX_BPS = 500"
definition LAMPORTS_PER_SOL :: rat where "LAMPORTS_PER_SOL = 1000000000"


text \<open>The pair returned is \<open>(taxAmount, returnAmount)\<close>.\<close>

definition calculateWithdrawalTax :: "rat \<Rightarrow> rat \<times> rat" where
  "calculateWithdrawalTax amountSol =
     (let taxAmount = amountSol * (of_int WITHDRAWAL_TAX_BPS / 10000);
          returnAmount = amountSol - taxAmount
      in (taxAmount, returnAmount))"

subsection \<open>Presale CRUD\<close>

definition getPresaleById :: "PresaleDatabase \<Rightarrow> string \<Rightarrow> Presale option" where
  "getPresaleById db i = find (\<lambda>p. id_presale p = i) (presales db)"

text \<open>
  \<open>Partial<Presale>\<close>: the callers of \<open>updatePresaleStatus\<close> pass only these four
  keys; \<open>None\<close> is a key that is absent, which \<open>Object.assign\<close> leaves alone.
\<close>

record PresalePatch =
  patch_token_mint :: "string option"
  patch_meteora_config_key :: "string option"
  patch_launch_signature :: "string option"
  patch_launched_at :: "int option"

definition no_patch :: PresalePatch where
  "no_patch = \<lparr>patch_token_mint = None, patch_meteora_config_key = None,
     patch_launch_signature = None, patch_launched_at = None\<rparr>"

definition assign_patch :: "PresalePatch \<Rightarrow> Presale \<Rightarrow> Presale" where
  "assign_patch a p =
     p\<lparr>token_mint := (case patch_token_mint a of None \<Rightarrow> token_mint p | Some v \<Rightarrow> Some v),
       meteora_config_key :=
         (case patch_meteora_config_key a of None \<Rightarrow> meteora_config_key p | Some v \<Rightarrow> Some v),
       launch_signature :=
         (case patch_launch_signature a of None \<Rightarrow> launch_signature p | Some v \<Rightarrow> Some v),
       launched_at := (case patch_launched_at a of None \<Rightarrow> launched_at p | Some v \<Rightarrow> Some v)\<rparr>"

definition updatePresaleStatus ::
  "PresaleDatabase \<Rightarrow> string \<Rightarrow> PresaleStatus \<Rightarrow> PresalePatch \<Rightarrow> PresaleDatabase" where
  "updatePresaleStatus db i st additionalData =
     db\<lparr>presales :=
          update_first (\<lambda>p. id_presale p = i)
            (\<lambda>p. assign_patch additionalData (p\<lparr>status := st\<rparr>)) (presales db)\<rparr>"

subsection \<open>Participant CRUD\<close>

text \<open>A wallet's record that is neither refunded nor withdrawn.\<close>

definition unresolved_for :: "string \<Rightarrow> string \<Rightarrow> PresaleParticipant \<Rightarrow> bool" where
  "unresolved_for pid w p =
     (presale_id p = pid \<and> wallet p = w \<and> \<not> refunded p \<and> \<not> withdrawn p)"

definition unconfirmed_for :: "string \<Rightarrow> string \<Rightarrow> PresaleParticipant \<Rightarrow> bool" where
  "unconfirmed_for pid w p =
     (presale_id p = pid \<and> wallet p = w \<and> \<not> confirmed p \<and> \<not> refunded p \<and> \<not> withdrawn p)"

definition counted_for :: "string \<Rightarrow> PresaleParticipant \<Rightarrow> bool" where
  "counted_for pid p = (presale_id p = pid \<and> confirmed p \<and> \<not> refunded p \<and> \<not> withdrawn p)"

function show_nat :: "nat \<Rightarrow> string" where
  "show_nat n =
     (if n < 10 then [char_of (48 + n)] else show_nat (n div 10) @ [char_of (48 + n mod 10)])"
  by pat_completeness auto
termination
  by (relation "measure (\<lambda>n. n)") auto

definition addParticipant ::
  "PresaleDatabase \<Rightarrow> string \<Rightarrow> string \<Rightarrow> rat \<Rightarrow> string \<Rightarrow> int \<Rightarrow>
     PresaleParticipant option \<times> PresaleDatabase" where
  "addParticipant db pid w amount sig now =
     (case find (\<lambda>p. id_presale p = pid) (presales db) of
        None \<Rightarrow> (None, db)
      | Some presale \<Rightarrow>
          (case find (unresolved_for pid w) (participants db) of
             Some existing \<Rightarrow> (None, db)
           | None \<Rightarrow>
               (let participant =
                      \<lparr>id_participant = pid @ ''-'' @ show_nat (nat now),
                       presale_id = pid, wallet = w, amount_sol = amount,
                       fee_share_bps = 0, joined_at = now, tx_signature = sig,
                       confirmed = False, refunded = False, refund_signature = None,
                       withdrawn = False, withdraw_signature = None,
                       withdraw_tax_paid = None\<rparr>
                in (Some participant,
                    db\<lparr>participants := participants db @ [participant]\<rparr>))))"

definition confirmParticipant ::
  "PresaleDatabase \<Rightarrow> string \<Rightarrow> string \<Rightarrow>
     (PresaleParticipant \<times> Presale) option \<times> PresaleDatabase" where
  "confirmParticipant db pid w =
     (case find (unconfirmed_for pid w) (participants db) of
        None \<Rightarrow> (None, db)
      | Some participant \<Rightarrow>
          (case find (\<lambda>p. id_presale p = pid) (presales db) of
             None \<Rightarrow> (None, db)
           | Some presale \<Rightarrow>
               (let participant' = participant\<lparr>confirmed := True\<rparr>;
                    presale' = presale\<lparr>total_sol := total_sol presale + amount_sol participant,
                                       participant_count := participant_count presale + 1\<rparr>
                in (Some (participant', presale'),
                    db\<lparr>participants :=
                         update_first (unconfirmed_for pid w) (\<lambda>p. p\<lparr>confirmed := True\<rparr>)
                           (participants db),
                       presales :=
                         update_first (\<lambda>p. id_presale p = pid)
                           (\<lambda>p. p\<lparr>total_sol := total_sol p + amount_sol participant,
                                   participant_count := participant_count p + 1\<rparr>)
                           (presales db)\<rparr>))))"

definition getPresaleParticipants :: "PresaleDatabase \<Rightarrow> string \<Rightarrow> PresaleParticipant list" where
  "getPresaleParticipants db pid = filter (counted_for pid) (participants db)"

definition getParticipantByWallet ::
  "PresaleDatabase \<Rightarrow> string \<Rightarrow> string \<Rightarrow> PresaleParticipant option" where
  "getParticipantByWallet db pid w = find (unresolved_for pid w) (participants db)"

text \<open>
  The totals are decremented only \<open>if (participant.confirmed && presale)\<close>; the
  flags are set whether or not the presale exists.
\<close>

definition settle_totals :: "string \<Rightarrow> PresaleParticipant \<Rightarrow> Presale list \<Rightarrow> Presale list" where
  "settle_totals pid participant ps =
     (if confirmed participant then
        update_first (\<lambda>p. id_presale p = pid)
          (\<lambda>p. p\<lparr>total_sol := total_sol p - amount_sol participant,
                  participant_count := participant_count p - 1\<rparr>) ps
      else ps)"

definition markParticipantRefunded ::
  "PresaleDatabase \<Rightarrow> string \<Rightarrow> string \<Rightarrow> string \<Rightarrow> bool \<times> PresaleDatabase" where
  "markParticipantRefunded db pid w sig =
     (case find (unresolved_for pid w) (participants db) of
        None \<Rightarrow> (False, db)
      | Some participant \<Rightarrow>
          (True,
           db\<lparr>participants :=
                update_first (unresolved_for pid w)
                  (\<lambda>p. p\<lparr>refunded := True, refund_signature := Some sig\<rparr>) (participants db),
              presales := settle_totals pid participant (presales db)\<rparr>))"

definition markParticipantWithdrawn ::
  "PresaleDatabase \<Rightarrow> string \<Rightarrow> string \<Rightarrow> string \<Rightarrow> rat \<Rightarrow> bool \<times> PresaleDatabase" where
  "markParticipantWithdrawn db pid w sig tax_paid =
     (case find (unresolved_for pid w) (participants db) of
        None \<Rightarrow> (False, db)
      | Some participant \<Rightarrow>
          (True,
           db\<lparr>participants :=
                update_first (unresolved_for pid w)
                  (\<lambda>p. p\<lparr>withdrawn := True, withdraw_signature := Some sig,
                          withdraw_tax_paid := Some tax_paid\<rparr>) (participants db),
              presales := settle_totals pid participant (presales db)\<rparr>))"

subsection \<open>Statistics\<close>

record PresaleStats =
  total_stats :: nat
  active_stats :: nat
  launched_stats :: nat
  failed_stats :: nat
  total_sol_stats :: rat

text \<open>
  \<open>launchedPresales.reduce((sum, p) => sum + (p.total_sol || 0), 0)\<close>: a left fold
  from 0; \<open>x || 0\<close> replaces a falsy number, here 0 itself, by 0.
\<close>

definition getPresaleStats :: "PresaleDatabase \<Rightarrow> PresaleStats" where
  "getPresaleStats db =
     (let launchedPresales = filter (\<lambda>p. status p = Launched) (presales db);
          total_sol' =
            foldl (\<lambda>sum p. sum + (if total_sol p = 0 then 0 else total_sol p)) 0 launchedPresales
      in \<lparr>total_stats = length (presales db),
          active_stats = length (filter (\<lambda>p. status p = Active) (presales db)),
          launched_stats = length launchedPresales,
          failed_stats = length (filter (\<lambda>p. status p = Failed) (presales db)),
          total_sol_stats = total_sol'\<rparr>)"

subsection \<open>Creating a presale\<close>








subsection \<open>Expiry\<close>



definition checkAutoLaunch :: "PresaleDatabase \<Rightarrow> string \<Rightarrow> bool" where
  "checkAutoLaunch db pid =
     (case getPresaleById db pid of
        None \<Rightarrow> False
      | Some presale \<Rightarrow>
          status presale = Active \<and> participant_count presale \<ge> target_participants presale)"

section \<open>The invariant of the totals\<close>

text \<open>
  For a presale, \<open>total_sol\<close> is the sum of \<open>amount_sol\<close> over the participants that
  \<open>getPresaleParticipants\<close> returns (confirmed, neither refunded nor withdrawn), and
  \<open>participant_count\<close> is their number.  The store invariant adds what makes this
  inductive: presale ids are distinct (every operation looks a presale up by
  \<open>find\<close>, which sees the first presale of an id only), and every participant
  names a presale of the store.
\<close>

definition totals_ok :: "PresaleDatabase \<Rightarrow> Presale \<Rightarrow> bool" where
  "totals_ok db p =
     (total_sol p = sum_list (map amount_sol (getPresaleParticipants db (id_presale p)))
      \<and> participant_count p = int (length (getPresaleParticipants db (id_presale p))))"

definition store_invariant :: "PresaleDatabase \<Rightarrow> bool" where
  "store_invariant db =
     (distinct (map id_presale (presales db))
      \<and> list_all (\<lambda>q. presale_id q \<in> set (map id_presale (presales db))) (participants db)
      \<and> list_all (totals_ok db) (presales db))"

section \<open>Fee allocation\<close>

text \<open>
  \<open>calculateFeeShares\<close> returns the list of \<open>(wallet, bps)\<close> pairs and stores
  \<open>fee_share_bps\<close> on the participant objects it iterates over, which are the
  objects of the store.  The assignment to \<open>feeShares[feeShares.length - 1].bps\<close>
  changes the entry of the returned list only: that entry is a fresh object.

  With \<open>total_sol = 0\<close> the quotient is \<open>NaN\<close> or an infinity in JavaScript, and so
  is every bps value; the model returns \<open>None\<close> for that case and leaves the stored
  shares alone, since \<open>int\<close> has no such values.
\<close>

definition share_bps :: "rat \<Rightarrow> int \<Rightarrow> PresaleParticipant \<Rightarrow> int" where
  "share_bps totalSol remainingBps p = \<lfloor>(amount_sol p / totalSol) * of_int remainingBps\<rfloor>"

text \<open>
  The block \<open>if (totalAssignedBps < 10000 && feeShares.length > 1)
  feeShares[feeShares.length - 1].bps += (10000 - totalAssignedBps)\<close>.
\<close>

definition adjust_rounding :: "(string \<times> int) list \<Rightarrow> int \<Rightarrow> (string \<times> int) list" where
  "adjust_rounding feeShares totalAssignedBps =
     (if totalAssignedBps < 10000 \<and> length feeShares > 1
      then (let n = length feeShares - 1
            in feeShares[n := (fst (feeShares ! n),
                               snd (feeShares ! n) + (10000 - totalAssignedBps))])
      else feeShares)"

definition calculateFeeShares ::
  "PresaleDatabase \<Rightarrow> string \<Rightarrow> (string \<times> int) list option \<times> PresaleDatabase" where
  "calculateFeeShares db pid =
     (case find (\<lambda>p. id_presale p = pid) (presales db) of
        None \<Rightarrow> (Some [], db)
      | Some presale \<Rightarrow>
          (let parts = filter (counted_for pid) (participants db) in
           if parts = [] then (Some [], db)
           else
             (let totalSol = total_sol presale;
                  creatorBps = CREATOR_ALLOCATION_BPS;
                  remainingBps = 10000 - creatorBps
              in if totalSol = 0 then (None, db)
                 else
                   (let shares = map (\<lambda>p. (wallet p, share_bps totalSol remainingBps p)) parts;
                        feeShares = (creator_wallet presale, creatorBps) # shares;
                        totalAssignedBps = sum_list (map snd shares) + creatorBps
                    in (Some (adjust_rounding feeShares totalAssignedBps),
                        db\<lparr>participants :=
                             map (\<lambda>p. if counted_for pid p
                                       then p\<lparr>fee_share_bps := share_bps totalSol remainingBps p\<rparr>
                                       else p) (participants db)\<rparr>)))))"

subsection \<open>The shares sum to 10000\<close>











subsection \<open>An example store\<close>

text \<open>
  One presale with target 3 and three confirmed participants of 0.05 SOL each; the
  proportional share of each is \<open>9500 / 3\<close>, which is not an integer.
\<close>

definition example_presale :: Presale where
  "example_presale =
     \<lparr>id_presale = ''PS0001ABCD'', creator_wallet = ''CREATOR'', token_name = ''Token'',
      token_symbol = ''TKN'', description = ''d'', image_url = ''i'', twitter = None,
      website = None, min_sol_per_wallet = 1 / 100, max_sol_per_wallet = 1 / 10,
      target_participants = 3, duration_minutes = 30, launch_fee_paid = True,
      launch_fee_signature = Some ''FEE'', status = Active, created_at = 0,
      expires_at = 1800000, launched_at = None, token_mint = None, launch_signature = None,
      meteora_config_key = None, total_sol = 3 / 20, participant_count = 3\<rparr>"

definition example_participant :: "string \<Rightarrow> rat \<Rightarrow> PresaleParticipant" where
  "example_participant w a =
     \<lparr>id_participant = ''PS0001ABCD-1'', presale_id = ''PS0001ABCD'', wallet = w,
      amount_sol = a, fee_share_bps = 0, joined_at = 1, tx_signature = ''SIG'',
      confirmed = True, refunded = False, refund_signature = None, withdrawn = False,
      withdraw_signature = None, withdraw_tax_paid = None\<rparr>"

definition example_db :: PresaleDatabase where
  "example_db =
     \<lparr>presales = [example_presale],
      participants = [example_participant ''A'' (1 / 20), example_participant ''B'' (1 / 20),
                      example_participant ''C'' (1 / 20)],
      lastPresaleNum = 1\<rparr>"








subsection \<open>What is stored on the participant records\<close>

lemma calculateFeeShares_stored:
  assumes "getPresaleById db pid = Some presale"
    and "getPresaleParticipants db pid \<noteq> []"
    and "total_sol presale \<noteq> 0"
  shows "participants (snd (calculateFeeShares db pid)) =
           map (\<lambda>p. if counted_for pid p
                     then p\<lparr>fee_share_bps := \<lfloor>(amount_sol p / total_sol presale) * 9500\<rfloor>\<rparr>
                     else p) (participants db)"
  using assms
  by (simp add: calculateFeeShares_def getPresaleById_def getPresaleParticipants_def Let_def
      CREATOR_ALLOCATION_BPS_def share_bps_def)

text \<open>
  C2.  On the example store the shortfall is 2: the list returned gives the last
  participant, wallet \<open>C\<close>, 3168 bps, and the record of \<open>C\<close> in the store keeps
  3166, the floor without the remainder.  The remainder is added to the entry of
  the list returned after the records were written, and never to the record.
\<close>

theorem calculateFeeShares_stored_share_misses_remainder:
  "map_of (the (fst (calculateFeeShares example_db ''PS0001ABCD''))) ''C'' = Some 3168
   \<and> map (\<lambda>p. (wallet p, fee_share_bps p))
        (participants (snd (calculateFeeShares example_db ''PS0001ABCD''))) =
       [(''A'', 3166), (''B'', 3166), (''C'', 3166)]"
  by code_simp

section \<open>The launch orchestrator (lib/launch-presale.ts)\<close>

text \<open>
  Every call to the launch service or to the chain is an input of the model: the
  record \<open>LaunchWorld\<close> says what each call answers in one attempt, and a call
  that throws is \<open>Threw\<close>.  The function returns, besides its result and the
  store, the list of the external calls it made, in order.  Error texts that the
  source builds from service messages are replaced by an error kind.
\<close>

datatype 'a outcome = Threw string | Returned 'a

text \<open>
  A JSON answer as \<open>parseBagsResponse\<close> reads it: the field \<open>success\<close> (absent or
  not a boolean: \<open>None\<close>), the field \<open>response\<close>, and the object itself seen as a
  payload.
\<close>

record 'a BagsRaw =
  raw_success :: "bool option"
  raw_response :: "'a option"
  raw_self :: 'a

datatype 'a BagsParsed = ParsedFailure | ParsedSuccess 'a

definition parseBagsResponse :: "'a BagsRaw \<Rightarrow> 'a BagsParsed" where
  "parseBagsResponse d =
     (if raw_success d = Some True
      then ParsedSuccess (case raw_response d of Some r \<Rightarrow> r | None \<Rightarrow> raw_self d)
      else if raw_success d = Some False then ParsedFailure
      else ParsedSuccess (raw_self d))"

record TokenInfo =
  tokenMint :: "string option"
  tokenMetadata :: "string option"

text \<open>
  A transaction as the service sends it: a string, or an object whose payload is
  under \<open>transaction\<close>, \<open>serializedTransaction\<close> or \<open>tx\<close>.
\<close>

datatype TxData = TxString string | TxObject "string option" "string option" "string option"

record ConfigInfo =
  meteoraConfigKey :: "string option"
  transactions :: "TxData list option"

record LaunchEnv =
  BAGS_API_KEY :: "string option"
  LAUNCHER_PRIVATE_KEY :: "string option"

record LaunchWorld =
  launcherKeyDecodes :: bool
  createTokenInfo :: "TokenInfo BagsRaw outcome"
  feeShareConfig :: "ConfigInfo BagsRaw outcome"
  feeShareConfigBasic :: "ConfigInfo BagsRaw outcome"
  signAndSendTransaction :: "string \<Rightarrow> string outcome"
  createLaunchTransaction :: "TxData BagsRaw outcome"

datatype ExternalCall =
    CallCreateTokenInfo
  | CallFeeShareConfig
  | CallFeeShareConfigBasic
  | CallSignAndSend string
  | CallCreateLaunchTransaction

datatype LaunchError =
    ApiKeyNotConfigured
  | LauncherKeyNotConfigured
  | PresaleNotFound
  | PresaleAlreadyLaunched
  | PresaleNotFull int int
  | NoConfirmedParticipants
  | FeeShareCalculationError "int option"
  | MetadataFailed
  | FeeShareConfigFailed
  | LaunchTxCreationFailed
  | LaunchTxSendFailed string
  | Exception string

record LaunchResult =
  res_success :: bool
  res_error :: "LaunchError option"
  res_token_mint :: "string option"
  res_launch_signature :: "string option"
  res_meteora_config_key :: "string option"
  res_bags_url :: "string option"
  res_explorer_url :: "string option"
  res_step :: "string option"

definition failure :: "LaunchError \<Rightarrow> LaunchResult" where
  "failure e =
     \<lparr>res_success = False, res_error = Some e, res_token_mint = None,
      res_launch_signature = None, res_meteora_config_key = None, res_bags_url = None,
      res_explorer_url = None, res_step = None\<rparr>"

text \<open>A string that JavaScript takes as true: present and not empty.\<close>

definition truthy :: "string option \<Rightarrow> bool" where
  "truthy s = (case s of None \<Rightarrow> False | Some v \<Rightarrow> v \<noteq> [])"

definition tx_payload :: "TxData \<Rightarrow> string option" where
  "tx_payload d =
     (case d of
        TxString s \<Rightarrow> Some s
      | TxObject t st x \<Rightarrow>
          if truthy t then t else if truthy st then st else if truthy x then x else None)"

text \<open>
  The loop over the configuration transactions: an unknown format is skipped, a
  send that throws is caught; the count of successes is only logged.
\<close>

fun sign_config_transactions ::
  "(string \<Rightarrow> string outcome) \<Rightarrow> TxData list \<Rightarrow> nat \<times> ExternalCall list" where
  "sign_config_transactions send [] = (0, [])"
| "sign_config_transactions send (d # ds) =
     (case tx_payload d of
        None \<Rightarrow> sign_config_transactions send ds
      | Some txBase58 \<Rightarrow>
          (let (n, calls) = sign_config_transactions send ds
           in (case send txBase58 of
                 Threw e \<Rightarrow> (n, CallSignAndSend txBase58 # calls)
               | Returned signature \<Rightarrow> (Suc n, CallSignAndSend txBase58 # calls))))"

definition config_ok :: "ConfigInfo BagsParsed \<Rightarrow> bool" where
  "config_ok r = (case r of ParsedFailure \<Rightarrow> False | ParsedSuccess c \<Rightarrow> truthy (meteoraConfigKey c))"

text \<open>Steps 3 and 4: the launch transaction, and the final status.\<close>

definition launch_step3 ::
  "LaunchWorld \<Rightarrow> PresaleDatabase \<Rightarrow> string \<Rightarrow> int \<Rightarrow> string \<Rightarrow> string \<Rightarrow> ExternalCall list \<Rightarrow>
     LaunchResult \<times> PresaleDatabase \<times> ExternalCall list" where
  "launch_step3 world db presaleId now mint configKey calls =
     (let partial = no_patch\<lparr>patch_token_mint := Some mint,
                             patch_meteora_config_key := Some configKey\<rparr>;
          calls3 = calls @ [CallCreateLaunchTransaction]
      in case createLaunchTransaction world of
           Threw e \<Rightarrow> (failure (Exception e), db, calls3)
         | Returned raw \<Rightarrow>
             (case parseBagsResponse raw of
                ParsedFailure \<Rightarrow>
                  ((failure LaunchTxCreationFailed)
                     \<lparr>res_step := Some ''launch_tx'', res_token_mint := Some mint,
                      res_meteora_config_key := Some configKey\<rparr>,
                   updatePresaleStatus db presaleId Active partial, calls3)
              | ParsedSuccess launchTxData \<Rightarrow>
                  (case (case tx_payload launchTxData of
                           None \<Rightarrow> (Threw ''Unknown launch tx format'', calls3)
                         | Some txBase58 \<Rightarrow>
                             (signAndSendTransaction world txBase58,
                              calls3 @ [CallSignAndSend txBase58])) of
                     (Threw e, calls4) \<Rightarrow>
                       ((failure (LaunchTxSendFailed e))
                          \<lparr>res_step := Some ''launch_send'', res_token_mint := Some mint,
                           res_meteora_config_key := Some configKey\<rparr>,
                        updatePresaleStatus db presaleId Active partial, calls4)
                   | (Returned launchSignature, calls4) \<Rightarrow>
                       (\<lparr>res_success = True, res_error = None, res_token_mint = Some mint,
                         res_launch_signature = Some launchSignature,
                         res_meteora_config_key = Some configKey,
                         res_bags_url = Some (''https://bags.fm/token/'' @ mint),
                         res_explorer_url = Some (''https://solscan.io/tx/'' @ launchSignature),
                         res_step = None\<rparr>,
                        updatePresaleStatus db presaleId Launched
                          (partial\<lparr>patch_launch_signature := Some launchSignature,
                                   patch_launched_at := Some now\<rparr>),
                        calls4))))"

text \<open>
  Step 2: the fee share configuration, tried again without the partner fields
  when the first answer is not usable, and the configuration transactions.
\<close>

definition launch_step2 ::
  "LaunchWorld \<Rightarrow> PresaleDatabase \<Rightarrow> string \<Rightarrow> int \<Rightarrow> string \<Rightarrow> ExternalCall list \<Rightarrow>
     LaunchResult \<times> PresaleDatabase \<times> ExternalCall list" where
  "launch_step2 world db presaleId now mint calls =
     (case feeShareConfig world of
        Threw e \<Rightarrow> (failure (Exception e), db, calls @ [CallFeeShareConfig])
      | Returned raw \<Rightarrow>
          (case (if config_ok (parseBagsResponse raw)
                 then (Returned (parseBagsResponse raw), calls @ [CallFeeShareConfig])
                 else (case feeShareConfigBasic world of
                         Threw e \<Rightarrow> Threw e
                       | Returned raw2 \<Rightarrow> Returned (parseBagsResponse raw2),
                       calls @ [CallFeeShareConfig, CallFeeShareConfigBasic])) of
             (Threw e, calls2) \<Rightarrow> (failure (Exception e), db, calls2)
           | (Returned configResult, calls2) \<Rightarrow>
               (case configResult of
                  ParsedFailure \<Rightarrow>
                    ((failure FeeShareConfigFailed)
                       \<lparr>res_step := Some ''fee_share'', res_token_mint := Some mint\<rparr>, db, calls2)
                | ParsedSuccess config \<Rightarrow>
                    (case meteoraConfigKey config of
                       None \<Rightarrow>
                         ((failure FeeShareConfigFailed)
                            \<lparr>res_step := Some ''fee_share'', res_token_mint := Some mint\<rparr>,
                          db, calls2)
                     | Some configKey \<Rightarrow>
                         if configKey = [] then
                           ((failure FeeShareConfigFailed)
                              \<lparr>res_step := Some ''fee_share'', res_token_mint := Some mint\<rparr>,
                            db, calls2)
                         else
                           (let configTransactions =
                                  (case transactions config of None \<Rightarrow> [] | Some ts \<Rightarrow> ts);
                                (configTxSuccess, sends) =
                                  sign_config_transactions (signAndSendTransaction world)
                                    configTransactions
                            in launch_step3 world db presaleId now mint configKey
                                 (calls2 @ sends))))))"

text \<open>Step 1: the token metadata.  It is requested in every attempt.\<close>

definition launch_step1 ::
  "LaunchWorld \<Rightarrow> PresaleDatabase \<Rightarrow> string \<Rightarrow> int \<Rightarrow>
     LaunchResult \<times> PresaleDatabase \<times> ExternalCall list" where
  "launch_step1 world db presaleId now =
     (case createTokenInfo world of
        Threw e \<Rightarrow> (failure (Exception e), db, [CallCreateTokenInfo])
      | Returned raw \<Rightarrow>
          (case parseBagsResponse raw of
             ParsedFailure \<Rightarrow>
               ((failure MetadataFailed)\<lparr>res_step := Some ''metadata''\<rparr>, db, [CallCreateTokenInfo])
           | ParsedSuccess info \<Rightarrow>
               (case tokenMint info of
                  None \<Rightarrow>
                    ((failure MetadataFailed)\<lparr>res_step := Some ''metadata''\<rparr>, db,
                     [CallCreateTokenInfo])
                | Some mint \<Rightarrow>
                    if mint = [] then
                      ((failure MetadataFailed)\<lparr>res_step := Some ''metadata''\<rparr>, db,
                       [CallCreateTokenInfo])
                    else launch_step2 world db presaleId now mint [CallCreateTokenInfo])))"

definition launchPresaleToken ::
  "LaunchEnv \<Rightarrow> LaunchWorld \<Rightarrow> PresaleDatabase \<Rightarrow> string \<Rightarrow> bool \<Rightarrow> int \<Rightarrow>
     LaunchResult \<times> PresaleDatabase \<times> ExternalCall list" where
  "launchPresaleToken env world db presaleId force now =
     (if \<not> truthy (BAGS_API_KEY env) then (failure ApiKeyNotConfigured, db, [])
      else if \<not> truthy (LAUNCHER_PRIVATE_KEY env) then (failure LauncherKeyNotConfigured, db, [])
      else
        (case getPresaleById db presaleId of
           None \<Rightarrow> (failure PresaleNotFound, db, [])
         | Some presale \<Rightarrow>
             if status presale = Launched then
               ((failure PresaleAlreadyLaunched)
                  \<lparr>res_token_mint := token_mint presale,
                   res_launch_signature := launch_signature presale\<rparr>, db, [])
             else if \<not> force \<and> participant_count presale < target_participants presale then
               (failure (PresaleNotFull (participant_count presale) (target_participants presale)),
                db, [])
             else if getPresaleParticipants db presaleId = [] then
               (failure NoConfirmedParticipants, db, [])
             else
               (case calculateFeeShares db presaleId of
                  (None, db1) \<Rightarrow> (failure (FeeShareCalculationError None), db1, [])
                | (Some feeShares, db1) \<Rightarrow>
                    (let totalBps = foldl (\<lambda>sum f. sum + snd f) 0 feeShares in
                     if totalBps \<noteq> 10000 then
                       (failure (FeeShareCalculationError (Some totalBps)), db1, [])
                     else if \<not> launcherKeyDecodes world then
                       (failure (Exception ''invalid secret key''), db1, [])
                     else launch_step1 world db1 presaleId now))))"

section \<open>The refund and withdraw route (app/api/presale/[id]/refund/route.ts)\<close>

text \<open>
  \<open>POST\<close> pays a withdrawal with tax from an active presale, or a refund without
  tax from a failed one.  The escrow key, the chain and its answers are inputs.
  A transfer is a recipient and an amount of lamports.  The constant
  \<open>presale\<close> of the handler is the object of the store, so the test
  \<open>presale.status === 'failed'\<close> at the end reads the status the store has then.
\<close>

record RefundWorld =
  ESCROW_PRIVATE_KEY :: "string option"
  escrowKeyDecodes :: bool
  walletIsPublicKey :: bool
  getBalance :: "int outcome"
  sendAndConfirmTransaction :: "(string \<times> int) list \<Rightarrow> string outcome"

definition TAX_WALLET :: string where
  "TAX_WALLET = ''DtDrwr7qXqWoXikXndmENBZBjjagMjEt1wnZBTVPPser''"

datatype RefundError =
    MissingWalletAddress
  | RefundPresaleNotFound
  | CannotWithdrawOrRefund PresaleStatus
  | WalletDidNotParticipate
  | AlreadyRefunded "string option"
  | AlreadyWithdrawn "string option"
  | DepositNotConfirmed
  | EscrowNotConfigured
  | WithdrawalTooSmall
  | RefundTooSmall
  | InsufficientEscrowBalance
  | TransactionFailed string

text \<open>
  A withdrawal answers the original amount, the tax, the lamports returned and the
  signature; a refund answers the lamports refunded and the signature.
\<close>

datatype RefundResponse =
    RefundFailure nat RefundError
  | WithdrawalSuccess rat rat int string
  | RefundSuccess int string

text \<open>The branch \<open>ACTIVE PRESALE - WITHDRAWAL WITH 5% TAX\<close> of the handler.\<close>

definition pay_withdrawal ::
  "RefundWorld \<Rightarrow> PresaleDatabase \<Rightarrow> string \<Rightarrow> string \<Rightarrow> rat \<Rightarrow> int \<Rightarrow> int \<Rightarrow>
     RefundResponse \<times> PresaleDatabase" where
  "pay_withdrawal world db i w amountSol amountLamports escrowBalance =
     (let (taxAmount, returnAmount) = calculateWithdrawalTax amountSol;
          taxLamports = \<lfloor>taxAmount * LAMPORTS_PER_SOL\<rfloor>;
          returnLamports = \<lfloor>returnAmount * LAMPORTS_PER_SOL\<rfloor> - 10000
      in if returnLamports \<le> 0 then (RefundFailure 400 WithdrawalTooSmall, db)
         else if escrowBalance < amountLamports + 10000
         then (RefundFailure 500 InsufficientEscrowBalance, db)
         else
           (case sendAndConfirmTransaction world [(TAX_WALLET, taxLamports), (w, returnLamports)] of
              Threw e \<Rightarrow> (RefundFailure 500 (TransactionFailed e), db)
            | Returned signature \<Rightarrow>
                (WithdrawalSuccess amountSol taxAmount returnLamports signature,
                 snd (markParticipantWithdrawn db i w signature taxAmount))))"

text \<open>The branch \<open>FAILED PRESALE - FULL REFUND (NO TAX)\<close>.\<close>

definition pay_refund ::
  "RefundWorld \<Rightarrow> PresaleDatabase \<Rightarrow> string \<Rightarrow> string \<Rightarrow> int \<Rightarrow> int \<Rightarrow>
     RefundResponse \<times> PresaleDatabase" where
  "pay_refund world db i w amountLamports escrowBalance =
     (let refundLamports = amountLamports - 5000
      in if refundLamports \<le> 0 then (RefundFailure 400 RefundTooSmall, db)
         else if escrowBalance < refundLamports + 5000
         then (RefundFailure 500 InsufficientEscrowBalance, db)
         else
           (case sendAndConfirmTransaction world [(w, refundLamports)] of
              Threw e \<Rightarrow> (RefundFailure 500 (TransactionFailed e), db)
            | Returned signature \<Rightarrow>
                (let db2 = snd (markParticipantRefunded db i w signature);
                     db3 =
                       (case getPresaleById db2 i of
                          None \<Rightarrow> db2
                        | Some current \<Rightarrow>
                            if status current = Failed
                            then updatePresaleStatus db2 i Refunding no_patch
                            else db2)
                 in (RefundSuccess refundLamports signature, db3))))"

text \<open>
  What the handler does once it holds a confirmed participant: the escrow key,
  the two public keys and the balance are read inside one \<open>try\<close>, whose \<open>catch\<close>
  answers \<open>Transaction failed\<close>.
\<close>

definition settle ::
  "RefundWorld \<Rightarrow> PresaleDatabase \<Rightarrow> string \<Rightarrow> string \<Rightarrow> bool \<Rightarrow> PresaleParticipant \<Rightarrow>
     RefundResponse \<times> PresaleDatabase" where
  "settle world db i w isActivePresale participant =
     (if \<not> truthy (ESCROW_PRIVATE_KEY world) then (RefundFailure 500 EscrowNotConfigured, db)
      else
        (let amountSol = amount_sol participant;
             amountLamports = \<lfloor>amountSol * LAMPORTS_PER_SOL\<rfloor>
         in if \<not> escrowKeyDecodes world
            then (RefundFailure 500 (TransactionFailed ''invalid secret key''), db)
            else if \<not> walletIsPublicKey world
            then (RefundFailure 500 (TransactionFailed ''invalid public key''), db)
            else
              (case getBalance world of
                 Threw e \<Rightarrow> (RefundFailure 500 (TransactionFailed e), db)
               | Returned escrowBalance \<Rightarrow>
                   if isActivePresale
                   then pay_withdrawal world db i w amountSol amountLamports escrowBalance
                   else pay_refund world db i w amountLamports escrowBalance)))"

definition refundPOST ::
  "RefundWorld \<Rightarrow> PresaleDatabase \<Rightarrow> string \<Rightarrow> string \<Rightarrow> int \<Rightarrow> RefundResponse \<times> PresaleDatabase" where
  "refundPOST world db i w now =
     (if w = [] then (RefundFailure 400 MissingWalletAddress, db)
      else
        (case getPresaleById db i of
           None \<Rightarrow> (RefundFailure 404 RefundPresaleNotFound, db)
         | Some presale \<Rightarrow>
             (let isActivePresale = (status presale = Active \<and> expires_at presale > now);
                  isFailedPresale =
                    (status presale = Failed \<or> status presale = Refunding
                     \<or> (status presale = Active \<and> expires_at presale < now));
                  db1 = (if status presale = Active \<and> expires_at presale < now
                         then updatePresaleStatus db i Failed no_patch else db)
              in if \<not> isActivePresale \<and> \<not> isFailedPresale
                 then (RefundFailure 400 (CannotWithdrawOrRefund (status presale)), db1)
                 else
                   (case getParticipantByWallet db1 i w of
                      None \<Rightarrow> (RefundFailure 404 WalletDidNotParticipate, db1)
                    | Some participant \<Rightarrow>
                        if refunded participant
                        then (RefundFailure 400 (AlreadyRefunded (refund_signature participant)), db1)
                        else if withdrawn participant
                        then (RefundFailure 400 (AlreadyWithdrawn (withdraw_signature participant)),
                              db1)
                        else if \<not> confirmed participant
                        then (RefundFailure 400 DepositNotConfirmed, db1)
                        else settle world db1 i w isActivePresale participant))))"

section \<open>The join route (app/api/presale/[id]/join/route.ts)\<close>





record JoinSuccess =
  position :: int
  new_participant_count :: int
  new_total_sol :: rat
  is_full :: bool
  launch_triggered :: bool
  launch :: "LaunchResult option"









section \<open>The totals are preserved\<close>





lemma find_SomeD: "find Q xs = Some x \<Longrightarrow> Q x \<and> x \<in> set xs"
  by (induction xs) (auto split: if_splits)












lemma addParticipant_invariant:
  assumes inv: "store_invariant db"
  shows "store_invariant (snd (addParticipant db pid w amount sig now))"
proof (cases "find (\<lambda>p. id_presale p = pid) (presales db)")
  case None
  then show ?thesis using inv by (simp add: addParticipant_def)
next
  case (Some presale)
  show ?thesis
  proof (cases "find (unresolved_for pid w) (participants db)")
    case (Some existing)
    then show ?thesis using inv \<open>find (\<lambda>p. id_presale p = pid) (presales db) = Some presale\<close>
      by (simp add: addParticipant_def)
  next
    case None
    have mem: "pid \<in> set (map id_presale (presales db))"
      using find_SomeD[OF Some] by force
    have "totals_ok (snd (addParticipant db pid w amount sig now)) = totals_ok db"
      using None Some
      by (intro ext) (simp add: totals_ok_def addParticipant_def getPresaleParticipants_def
          counted_for_def Let_def)
    then show ?thesis
      using inv None Some mem
      by (simp add: store_invariant_def addParticipant_def Let_def)
  qed
qed

subsection \<open>Examples\<close>

text \<open>The example store with a fourth, unconfirmed deposit by wallet \<open>D\<close>.\<close>

definition example_pending :: PresaleDatabase where
  "example_pending = snd (addParticipant example_db ''PS0001ABCD'' ''D'' (1 / 50) ''SIG4'' 5)"




lemma example_confirm_totals:
  "map (\<lambda>p. (total_sol p, participant_count p))
     (presales (snd (confirmParticipant example_pending ''PS0001ABCD'' ''D''))) = [(17 / 100, 4)]"
  by code_simp



section \<open>Properties of the launch orchestrator\<close>

subsection \<open>Example environments and services\<close>

definition env_ok :: LaunchEnv where
  "env_ok = \<lparr>BAGS_API_KEY = Some ''APIKEY'', LAUNCHER_PRIVATE_KEY = Some ''SECRET''\<rparr>"

definition env_no_api_key :: LaunchEnv where
  "env_no_api_key = \<lparr>BAGS_API_KEY = None, LAUNCHER_PRIVATE_KEY = Some ''SECRET''\<rparr>"

definition answer :: "'a \<Rightarrow> 'a BagsRaw outcome" where
  "answer x = Returned \<lparr>raw_success = Some True, raw_response = Some x, raw_self = x\<rparr>"

definition refusal :: "'a \<Rightarrow> 'a BagsRaw outcome" where
  "refusal x = Returned \<lparr>raw_success = Some False, raw_response = None, raw_self = x\<rparr>"

text \<open>A service that answers every call, and signs every transaction.\<close>

definition world_ok :: LaunchWorld where
  "world_ok =
     \<lparr>launcherKeyDecodes = True,
      createTokenInfo = answer \<lparr>tokenMint = Some ''NEWMINT'', tokenMetadata = Some ''ipfs''\<rparr>,
      feeShareConfig =
        answer \<lparr>meteoraConfigKey = Some ''CONFIG'', transactions = Some [TxString ''CFGTX'']\<rparr>,
      feeShareConfigBasic = Threw ''not called'',
      signAndSendTransaction = (\<lambda>tx. Returned (''sig-'' @ tx)),
      createLaunchTransaction = answer (TxObject (Some ''LAUNCHTX'') None None)\<rparr>"

text \<open>The example presale after a launch.\<close>

definition launched_presale :: Presale where
  "launched_presale =
     example_presale\<lparr>status := Launched, token_mint := Some ''MINT'',
                     launch_signature := Some ''LAUNCHSIG''\<rparr>"

definition launched_db :: PresaleDatabase where
  "launched_db = example_db\<lparr>presales := [launched_presale]\<rparr>"

lemma env_ok_api_key: "truthy (BAGS_API_KEY env_ok)"
  by code_simp

lemma env_ok_launcher_key: "truthy (LAUNCHER_PRIVATE_KEY env_ok)"
  by code_simp

lemma launched_db_presale: "getPresaleById launched_db ''PS0001ABCD'' = Some launched_presale"
  by code_simp

subsection \<open>A launched presale is not launched again\<close>

text \<open>
  C6, as the code has it.  When \<open>BAGS_API_KEY\<close> and \<open>LAUNCHER_PRIVATE_KEY\<close> are
  configured and the presale is found: if its status is \<open>launched\<close>,
  \<open>launchPresaleToken\<close> returns the failure \<open>Presale already launched\<close> carrying
  the stored \<open>token_mint\<close> and \<open>launch_signature\<close>, leaves the store alone and calls
  no service, whatever \<open>force\<close> is; and a call without \<open>force\<close> differs from the
  call with \<open>force\<close> only where the presale is not launched and not full, where it
  returns the failure \<open>Presale not full\<close>.
\<close>

theorem launch_already_launched:
  assumes "truthy (BAGS_API_KEY env)" and "truthy (LAUNCHER_PRIVATE_KEY env)"
    and "getPresaleById db i = Some presale"
  shows "(status presale = Launched \<longrightarrow>
            launchPresaleToken env world db i force now =
              ((failure PresaleAlreadyLaunched)
                 \<lparr>res_token_mint := token_mint presale,
                  res_launch_signature := launch_signature presale\<rparr>, db, []))
         \<and> launchPresaleToken env world db i False now =
             (if status presale \<noteq> Launched \<and> participant_count presale < target_participants presale
              then (failure (PresaleNotFull (participant_count presale) (target_participants presale)),
                    db, [])
              else launchPresaleToken env world db i True now)"
  using assms by (simp add: launchPresaleToken_def)

theorem launch_already_launched_witness:
  "launchPresaleToken env_ok world_ok launched_db ''PS0001ABCD'' True 5 =
     ((failure PresaleAlreadyLaunched)
        \<lparr>res_token_mint := Some ''MINT'', res_launch_signature := Some ''LAUNCHSIG''\<rparr>,
      launched_db, [])
   \<and> launchPresaleToken env_ok world_ok launched_db ''PS0001ABCD'' False 5 =
       launchPresaleToken env_ok world_ok launched_db ''PS0001ABCD'' True 5"
  using launch_already_launched
    [OF env_ok_api_key env_ok_launcher_key launched_db_presale, of world_ok True 5]
  by (simp add: launched_presale_def)

text \<open>
  The claim as stated fails where a key is missing: the check of the configuration
  comes first, and its failure carries no token id.
\<close>

theorem launch_already_launched_counterexample:
  "getPresaleById launched_db ''PS0001ABCD'' = Some launched_presale
   \<and> status launched_presale = Launched
   \<and> token_mint launched_presale = Some ''MINT''
   \<and> fst (launchPresaleToken env_no_api_key world_ok launched_db ''PS0001ABCD'' True 5) =
       failure ApiKeyNotConfigured
   \<and> res_token_mint
        (fst (launchPresaleToken env_no_api_key world_ok launched_db ''PS0001ABCD'' True 5)) = None"
  by code_simp

subsection \<open>Failures of the launch sequence\<close>

definition world_fee_share_fails :: LaunchWorld where
  "world_fee_share_fails =
     world_ok\<lparr>feeShareConfig := refusal \<lparr>meteoraConfigKey = None, transactions = None\<rparr>,
              feeShareConfigBasic := refusal \<lparr>meteoraConfigKey = None, transactions = None\<rparr>\<rparr>"

definition world_launch_tx_fails :: LaunchWorld where
  "world_launch_tx_fails = world_ok\<lparr>createLaunchTransaction := refusal (TxString [])\<rparr>"

text \<open>The example presale, still active, with a token id left by an earlier attempt.\<close>

definition retry_db :: PresaleDatabase where
  "retry_db = example_db\<lparr>presales := [example_presale\<lparr>token_mint := Some ''OLDMINT''\<rparr>]\<rparr>"

lemma find_update_first:
  assumes "find P xs = Some x" and "\<And>y. P (f y) = P y"
  shows "find P (update_first P f xs) = Some (f x)"
  using assms by (induction xs) (auto split: if_splits)

lemma getPresaleById_updatePresaleStatus:
  assumes "getPresaleById db i = Some p"
  shows "getPresaleById (updatePresaleStatus db i st patch) i = Some (assign_patch patch (p\<lparr>status := st\<rparr>))"
  using assms
  by (simp add: getPresaleById_def updatePresaleStatus_def find_update_first assign_patch_def)

lemma presales_calculateFeeShares: "presales (snd (calculateFeeShares db i)) = presales db"
  by (simp add: calculateFeeShares_def Let_def split: option.splits)

lemma launch_step3_cases:
  assumes "launch_step3 world db i now mint key calls = (r, db', calls')"
  shows "(res_step r = Some ''launch_tx'' \<or> res_step r = Some ''launch_send'' \<longrightarrow>
           db' = updatePresaleStatus db i Active
                   (no_patch\<lparr>patch_token_mint := Some mint, patch_meteora_config_key := Some key\<rparr>)
           \<and> res_token_mint r = Some mint \<and> res_meteora_config_key r = Some key)
         \<and> res_step r \<noteq> Some ''fee_share''
         \<and> (\<exists>rest. calls' = calls @ rest)"
  using assms
  by (auto simp: launch_step3_def Let_def failure_def
      split: outcome.splits BagsParsed.splits option.splits prod.splits)


lemma launch_step2_cases:
  assumes "launch_step2 world db i now mint calls = (r, db', calls')"
  shows "(res_step r = Some ''launch_tx'' \<or> res_step r = Some ''launch_send'' \<longrightarrow>
           (\<exists>key. db' = updatePresaleStatus db i Active
                   (no_patch\<lparr>patch_token_mint := Some mint, patch_meteora_config_key := Some key\<rparr>)
              \<and> res_token_mint r = Some mint \<and> res_meteora_config_key r = Some key))
         \<and> (res_step r = Some ''fee_share'' \<longrightarrow> db' = db \<and> res_token_mint r = Some mint)
         \<and> (\<exists>rest. calls' = calls @ rest)"
  using assms
  by (auto simp: launch_step2_def Let_def failure_def
      split: outcome.splits BagsParsed.splits option.splits prod.splits if_splits
      dest!: launch_step3_cases)

lemma launch_step1_cases:
  assumes "launch_step1 world db i now = (r, db', calls')"
  shows "(res_step r = Some ''launch_tx'' \<or> res_step r = Some ''launch_send'' \<longrightarrow>
           (\<exists>mint key. db' = updatePresaleStatus db i Active
                   (no_patch\<lparr>patch_token_mint := Some mint, patch_meteora_config_key := Some key\<rparr>)
              \<and> res_token_mint r = Some mint \<and> res_meteora_config_key r = Some key))
         \<and> (res_step r = Some ''fee_share'' \<longrightarrow> db' = db \<and> res_token_mint r \<noteq> None)
         \<and> (\<exists>rest. calls' = CallCreateTokenInfo # rest)"
  using assms
  by (auto simp: launch_step1_def Let_def failure_def
      split: outcome.splits BagsParsed.splits option.splits prod.splits if_splits
      dest!: launch_step2_cases)


lemma failure_fields: "res_step (failure e) = None" "\<not> res_success (failure e)"
  by (simp_all add: failure_def)

lemma launchPresaleToken_cases:
  assumes "launchPresaleToken env world db i force now = (r, db', calls)"
  shows "(res_step r = None \<and> \<not> res_success r \<and> calls = [] \<and> presales db' = presales db)
         \<or> (\<exists>presale. getPresaleById db i = Some presale
              \<and> launch_step1 world (snd (calculateFeeShares db i)) i now = (r, db', calls))"
proof (cases "truthy (BAGS_API_KEY env) \<and> truthy (LAUNCHER_PRIVATE_KEY env)")
  case False
  have "(\<exists>e. r = failure e) \<and> db' = db \<and> calls = []"
  proof (cases "truthy (BAGS_API_KEY env)")
    case True
    with False assms show ?thesis by (auto simp: launchPresaleToken_def)
  next
    case False
    with assms show ?thesis by (auto simp: launchPresaleToken_def)
  qed
  then show ?thesis by (auto simp: failure_fields)
next
  case keys: True
  show ?thesis
  proof (cases "getPresaleById db i")
    case None
    then have "(\<exists>e. r = failure e) \<and> db' = db \<and> calls = []"
      using assms keys by (auto simp: launchPresaleToken_def)
    then show ?thesis by (auto simp: failure_fields)
  next
    case (Some presale)
    show ?thesis
    proof (cases "status presale = Launched
        \<or> (\<not> force \<and> participant_count presale < target_participants presale)
        \<or> getPresaleParticipants db i = []")
      case True
      then have "res_step r = None \<and> \<not> res_success r \<and> db' = db \<and> calls = []"
        using assms keys Some
        by (auto simp: launchPresaleToken_def failure_def split: if_splits)
      then show ?thesis by simp
    next
      case pre: False
      obtain x db1 where calc: "calculateFeeShares db i = (x, db1)"
        by (cases "calculateFeeShares db i")
      have p: "presales db1 = presales db"
        using presales_calculateFeeShares[of db i] calc by simp
      have unfolded: "(r, db', calls) =
          (case x of
             None \<Rightarrow> (failure (FeeShareCalculationError None), db1, [])
           | Some feeShares \<Rightarrow>
               if foldl (\<lambda>sum f. sum + snd f) 0 feeShares \<noteq> 10000
               then (failure (FeeShareCalculationError (Some (foldl (\<lambda>sum f. sum + snd f) 0 feeShares))), db1, [])
               else if \<not> launcherKeyDecodes world
               then (failure (Exception ''invalid secret key''), db1, [])
               else launch_step1 world db1 i now)"
      proof -
        from pre have n: "status presale \<noteq> Launched"
          "\<not> (\<not> force \<and> participant_count presale < target_participants presale)"
          "getPresaleParticipants db i \<noteq> []"
          by auto
        show ?thesis
          using assms keys Some calc
          by (simp only: launchPresaleToken_def n Let_def if_False if_True not_not
              option.case prod.case simp_thms split: option.split)
      qed
      show ?thesis
      proof (cases "x = None \<or> (\<exists>fs. x = Some fs \<and> (foldl (\<lambda>sum f. sum + snd f) 0 fs \<noteq> 10000
                      \<or> \<not> launcherKeyDecodes world))")
        case True
        then have "(\<exists>e. r = failure e) \<and> db' = db1 \<and> calls = []"
          using unfolded by (auto split: option.splits if_splits)
        then show ?thesis using p by (auto simp: failure_fields)
      next
        case False
        then have "launch_step1 world db1 i now = (r, db', calls)"
          using unfolded by (auto split: option.splits if_splits)
        then show ?thesis using Some calc by simp
      qed
    qed
  qed
qed

text \<open>
  C7, as the code has it.  For every call of \<open>launchPresaleToken\<close>: if it fails at
  the launch transaction (step \<open>launch_tx\<close>, the service refuses to create it, or
  step \<open>launch_send\<close>, signing or sending it fails), the presale is left with
  status \<open>active\<close> and with the token id and the configuration key of this attempt
  stored on it, the same that the result carries; if it fails at the fee share
  configuration (step \<open>fee_share\<close>), the status of every presale is as before; and
  whenever the call reaches a step, succeeds or calls the service at all, its
  first call is the metadata registration, whatever \<open>token_mint\<close> the presale
  already holds.
\<close>

theorem launch_failure_recovery:
  assumes "launchPresaleToken env world db i force now = (r, db', calls)"
  shows "(res_step r = Some ''launch_tx'' \<or> res_step r = Some ''launch_send'' \<longrightarrow>
            (\<exists>p mint key. getPresaleById db' i = Some p \<and> status p = Active
               \<and> token_mint p = Some mint \<and> res_token_mint r = Some mint
               \<and> meteora_config_key p = Some key \<and> res_meteora_config_key r = Some key))
         \<and> (res_step r = Some ''fee_share'' \<longrightarrow> map status (presales db') = map status (presales db))
         \<and> (res_step r \<noteq> None \<or> res_success r \<or> calls \<noteq> [] \<longrightarrow>
              (\<exists>rest. calls = CallCreateTokenInfo # rest))"
proof -
  from launchPresaleToken_cases[OF assms] show ?thesis
  proof
    assume "res_step r = None \<and> \<not> res_success r \<and> calls = [] \<and> presales db' = presales db"
    then show ?thesis by simp
  next
    assume "\<exists>presale. getPresaleById db i = Some presale
              \<and> launch_step1 world (snd (calculateFeeShares db i)) i now = (r, db', calls)"
    then obtain presale where found: "getPresaleById db i = Some presale"
      and step: "launch_step1 world (snd (calculateFeeShares db i)) i now = (r, db', calls)"
      by blast
    let ?db1 = "snd (calculateFeeShares db i)"
    have found1: "getPresaleById ?db1 i = Some presale"
      using found by (simp add: getPresaleById_def presales_calculateFeeShares)
    note c = launch_step1_cases[OF step]
    have a: "\<exists>p mint key. getPresaleById db' i = Some p \<and> status p = Active
               \<and> token_mint p = Some mint \<and> res_token_mint r = Some mint
               \<and> meteora_config_key p = Some key \<and> res_meteora_config_key r = Some key"
      if "res_step r = Some ''launch_tx'' \<or> res_step r = Some ''launch_send''"
    proof -
      from c that obtain mint key where
        db': "db' = updatePresaleStatus ?db1 i Active
               (no_patch\<lparr>patch_token_mint := Some mint, patch_meteora_config_key := Some key\<rparr>)"
        and r: "res_token_mint r = Some mint" "res_meteora_config_key r = Some key"
        by blast
      show ?thesis
        using getPresaleById_updatePresaleStatus[OF found1, of Active
            "no_patch\<lparr>patch_token_mint := Some mint, patch_meteora_config_key := Some key\<rparr>"] r
        by (simp add: db' assign_patch_def no_patch_def)
    qed
    have b: "map status (presales db') = map status (presales db)"
      if "res_step r = Some ''fee_share''"
      using c that by (simp add: presales_calculateFeeShares)
    have d: "\<exists>rest. calls = CallCreateTokenInfo # rest"
      using c by simp
    show ?thesis
      using a b d by simp
  qed
qed

theorem launch_failure_recovery_witness:
  "res_step (fst (launchPresaleToken env_ok world_launch_tx_fails example_db ''PS0001ABCD'' False 5))
     = Some ''launch_tx''
   \<and> (\<exists>p mint key.
         getPresaleById
           (fst (snd (launchPresaleToken env_ok world_launch_tx_fails example_db ''PS0001ABCD'' False 5)))
           ''PS0001ABCD'' = Some p
         \<and> status p = Active \<and> token_mint p = Some mint \<and> meteora_config_key p = Some key)
   \<and> (\<exists>rest.
         snd (snd (launchPresaleToken env_ok world_launch_tx_fails example_db ''PS0001ABCD'' False 5))
           = CallCreateTokenInfo # rest)"
proof -
  let ?L = "launchPresaleToken env_ok world_launch_tx_fails example_db ''PS0001ABCD'' False 5"
  have step: "res_step (fst ?L) = Some ''launch_tx''"
    by code_simp
  have "?L = (fst ?L, fst (snd ?L), snd (snd ?L))"
    by simp
  from launch_failure_recovery[OF this] step show ?thesis
    by blast
qed

text \<open>
  The claim as stated fails twice.  After a failure at the fee share configuration
  the result carries the token id, and the presale record does not: only the two
  failures of the launch transaction call \<open>updatePresaleStatus\<close>.  And a retry for
  a presale that is active and already holds a token id registers the metadata
  again, and ends with the new token id in place of the old.
\<close>

theorem launch_failure_recovery_counterexample:
  "res_step (fst (launchPresaleToken env_ok world_fee_share_fails example_db ''PS0001ABCD'' False 5))
     = Some ''fee_share''
   \<and> res_token_mint
        (fst (launchPresaleToken env_ok world_fee_share_fails example_db ''PS0001ABCD'' False 5))
     = Some ''NEWMINT''
   \<and> map token_mint
        (presales (fst (snd
           (launchPresaleToken env_ok world_fee_share_fails example_db ''PS0001ABCD'' False 5))))
     = [None]
   \<and> map (\<lambda>p. (status p, token_mint p)) (presales retry_db) = [(Active, Some ''OLDMINT'')]
   \<and> snd (snd (launchPresaleToken env_ok world_ok retry_db ''PS0001ABCD'' False 5))
     = [CallCreateTokenInfo, CallFeeShareConfig, CallSignAndSend ''CFGTX'',
        CallCreateLaunchTransaction, CallSignAndSend ''LAUNCHTX'']
   \<and> map (\<lambda>p. (status p, token_mint p))
        (presales (fst (snd (launchPresaleToken env_ok world_ok retry_db ''PS0001ABCD'' False 5))))
     = [(Launched, Some ''NEWMINT'')]"
  by code_simp

section \<open>Properties of the refund and withdraw route\<close>

text \<open>The example presale after its expiry was noticed, and an escrow that pays.\<close>

definition failed_db :: PresaleDatabase where
  "failed_db = example_db\<lparr>presales := [example_presale\<lparr>status := Failed\<rparr>]\<rparr>"

definition refund_world_ok :: RefundWorld where
  "refund_world_ok =
     \<lparr>ESCROW_PRIVATE_KEY = Some ''ESCROWKEY'', escrowKeyDecodes = True, walletIsPublicKey = True,
      getBalance = Returned 1000000000,
      sendAndConfirmTransaction = (\<lambda>transfers. Returned ''SETTLESIG'')\<rparr>"

text \<open>
  The handler looks the participant up with \<open>getParticipantByWallet\<close>, which skips
  refunded and withdrawn records; so the two answers \<open>Already refunded\<close> and
  \<open>Already withdrawn\<close>, the only ones that carry the earlier signature, are never
  given.
\<close>

lemma refundPOST_never_already_resolved:
  "fst (refundPOST world db i w now) \<noteq> RefundFailure c (AlreadyRefunded s)
   \<and> fst (refundPOST world db i w now) \<noteq> RefundFailure c (AlreadyWithdrawn s)"
proof -
  have "\<not> refunded q \<and> \<not> withdrawn q" if "getParticipantByWallet d i w = Some q" for d q
    using that by (auto simp: getParticipantByWallet_def unresolved_for_def dest: find_SomeD)
  then show ?thesis
    by (auto simp: refundPOST_def settle_def pay_refund_def pay_withdrawal_def Let_def
        split: option.splits outcome.splits prod.splits if_splits)
qed

text \<open>
  C5.  Wallet \<open>A\<close> of the failed example presale asks for its refund twice.  The
  first call pays 0.05 SOL less 5000 lamports and takes \<open>A\<close> out of the totals
  (from 0.15 SOL and 3 participants to 0.10 SOL and 2).  The second call is
  rejected and the totals stay, but the rejection is \<open>404 Wallet did not
  participate in this presale\<close>, with no signature, not \<open>Already refunded\<close> with
  the signature of the first refund.
\<close>

theorem refund_twice_second_call_not_found:
  "fst (refundPOST refund_world_ok failed_db ''PS0001ABCD'' ''A'' 5) =
     RefundSuccess 49995000 ''SETTLESIG''
   \<and> fst (refundPOST refund_world_ok
            (snd (refundPOST refund_world_ok failed_db ''PS0001ABCD'' ''A'' 5))
            ''PS0001ABCD'' ''A'' 6) =
       RefundFailure 404 WalletDidNotParticipate
   \<and> map (\<lambda>p. (total_sol p, participant_count p)) (presales failed_db) = [(3 / 20, 3)]
   \<and> map (\<lambda>p. (total_sol p, participant_count p))
        (presales (snd (refundPOST refund_world_ok
            (snd (refundPOST refund_world_ok failed_db ''PS0001ABCD'' ''A'' 5))
            ''PS0001ABCD'' ''A'' 6))) = [(1 / 10, 2)]
   \<and> map (\<lambda>q. (wallet q, refunded q, refund_signature q))
        (participants (snd (refundPOST refund_world_ok failed_db ''PS0001ABCD'' ''A'' 5))) =
       [(''A'', True, Some ''SETTLESIG''), (''B'', False, None), (''C'', False, None)]"
  by code_simp

subsection \<open>Settlement of a presale that has failed\<close>











section \<open>Properties of the join route\<close>
















subsection \<open>Example requests\<close>











section \<open>Expiry is noticed by the routes\<close>







section \<open>The withdrawal tax, and the arithmetic of doubles\<close>

text \<open>
  A JavaScript number is an IEEE-754 double, and \<open>*\<close>, \<open>/\<close>, \<open>+\<close> and \<open>-\<close> return
  the exact result rounded to the nearest double, ties to the even significand.
  A finite double is a rational here, and \<open>round_double\<close> rounds a rational: to
  53 significant bits, or to a multiple of \<open>2 powi (- 1074)\<close> below the normal
  range.  Overflow to an infinity is not modelled; no result below exceeds its
  input.  \<open>floor_log2 x\<close> is the exponent of a positive \<open>x\<close>, and
  \<open>calculateWithdrawalTax_double\<close> is \<open>calculateWithdrawalTax\<close> with every
  operation rounded as the code computes it; \<open>WITHDRAWAL_TAX_BPS / 10000\<close> is
  itself a rounded quotient.
\<close>

definition floor_log2 :: "rat \<Rightarrow> int" where
  "floor_log2 x =
     (let (p, q) = quotient_of x;
          d = bitlen p - bitlen q
      in if 2 powi d \<le> x then d else d - 1)"

definition round_ties_even :: "rat \<Rightarrow> int" where
  "round_ties_even x =
     (let f = \<lfloor>x\<rfloor>; d = x - of_int f
      in if d < 1 / 2 then f else if d > 1 / 2 then f + 1 else if even f then f else f + 1)"

definition double_quantum :: "rat \<Rightarrow> rat" where
  "double_quantum x =
     (let e = floor_log2 \<bar>x\<bar> in if e < - 1022 then 2 powi (- 1074) else 2 powi (e - 52))"

definition round_double :: "rat \<Rightarrow> rat" where
  "round_double x =
     (if x = 0 then 0
      else (let q = double_quantum x in of_int (round_ties_even (x / q)) * q))"

definition calculateWithdrawalTax_double :: "rat \<Rightarrow> rat \<times> rat" where
  "calculateWithdrawalTax_double amountSol =
     (let taxAmount = round_double (amountSol * round_double (of_int WITHDRAWAL_TAX_BPS / 10000));
          returnAmount = round_double (amountSol - taxAmount)
      in (taxAmount, returnAmount))"















lemma double_of_0_014: "round_double (14 / 1000) = 8070450532247929 / 576460752303423488"
  by code_simp


lemma withdrawal_tax_double_0_014:
  "calculateWithdrawalTax_double (round_double (14 / 1000)) =
     (807045053224793 / 1152921504606846976, 1916732001408883 / 144115188075855872)"
  by code_simp



section \<open>Aggregate statistics\<close>

lemma foldl_plus_sum_list:
  "foldl (\<lambda>s p. s + g p) a xs = a + sum_list (map g xs)" for a :: rat
  by (induction xs arbitrary: a) (simp_all add: add.assoc)

lemma sum_list_filter_if:
  "sum_list (map g (filter P xs)) = sum_list (map (\<lambda>x. if P x then g x else 0) xs)"
  for g :: "'a \<Rightarrow> rat"
  by (induction xs) simp_all

text \<open>
  C10.  \<open>getPresaleStats\<close> reports as \<open>total_sol\<close> the sum of \<open>total_sol\<close> over the
  presales whose status is \<open>launched\<close> only: a presale that is active, failed or
  refunding contributes 0, whatever SOL it holds.  \<open>total\<close> is the number of all
  presales, and \<open>active\<close>, \<open>launched\<close> and \<open>failed\<close> count the presales of that
  status.
\<close>

theorem getPresaleStats_counts_launched_only:
  "total_sol_stats (getPresaleStats db) =
     sum_list (map (\<lambda>p. if status p = Launched then total_sol p else 0) (presales db))
   \<and> total_stats (getPresaleStats db) = length (presales db)
   \<and> active_stats (getPresaleStats db) = length (filter (\<lambda>p. status p = Active) (presales db))
   \<and> launched_stats (getPresaleStats db) = length (filter (\<lambda>p. status p = Launched) (presales db))
   \<and> failed_stats (getPresaleStats db) = length (filter (\<lambda>p. status p = Failed) (presales db))"
proof -
  have "(\<lambda>p. if total_sol p = 0 then 0 else total_sol p) = total_sol"
    by (rule ext) simp
  then have "total_sol_stats (getPresaleStats db) =
      sum_list (map total_sol (filter (\<lambda>p. status p = Launched) (presales db)))"
    by (simp add: getPresaleStats_def Let_def foldl_plus_sum_list)
  then show ?thesis
    by (simp add: sum_list_filter_if getPresaleStats_def Let_def)
qed

end
